theory Spec2Isabelle
  imports Complex_Main
begin

section \<open>GeoThinneR: grid-hashed thinning of coordinate points\<close>

text \<open>
  A shallow embedding of \<^verbatim>\<open>src/rounding_hashing.cpp\<close>. Conventions of the embedding:
  \<^item> a C++ \<^verbatim>\<open>double\<close> is a \<^typ>\<open>real\<close>. The quotients that make the grid keys (lines 37,
    44, 45, 82 and 83) are rounded to binary64 as IEEE division rounds them; the distance
    functions are evaluated on the reals, unrounded. Infinities and NaN are no values of
    the model: the one place where the code meets them on finite input, division by a
    precision of 0, is written out where the quotient is cast;
  \<^item> a C++ \<^verbatim>\<open>int\<close> is an \<^typ>\<open>int\<close> kept within 32 bits: \<^verbatim>\<open>static_cast<int>\<close> is the
    identity inside the range of \<^verbatim>\<open>int\<close> and yields \<^verbatim>\<open>INT_MIN\<close> outside it, as the
    conversion instruction of x86-64 does where C++ leaves the cast undefined, and the
    addition of \<^verbatim>\<open>int\<close> wraps around;
  \<^item> the coordinate matrix is the list of its rows, row \<open>i\<close> being
    \<open>(coordinates(i, 0), coordinates(i, 1))\<close>;
  \<^item> a grid key \<^verbatim>\<open>to_string(lon) + "_" + to_string(lat)\<close> is the pair \<open>(lon, lat)\<close>: the
    decimal rendering of an \<^verbatim>\<open>int\<close> has no underscore, so the string determines the
    pair and the pair the string;
  \<^item> the \<^verbatim>\<open>unordered_map\<close> is an association list in order of first insertion, read
    with \<^const>\<open>map_of\<close>;
  \<^item> an \<^verbatim>\<open>Rcpp::LogicalVector\<close> is a handle to an R vector: its copy constructor and
    its assignment share the vector (a deep copy takes \<^verbatim>\<open>Rcpp::clone\<close>), so the loop
    state holds handles and a store from handles to vector contents;
  \<^item> \<^verbatim>\<open>std::mt19937\<close> and \<^verbatim>\<open>std::shuffle\<close> are parameters: a type \<open>'g\<close> of generator
    states, \<open>seed_gen\<close> for the constructor and \<open>shuffle\<close>, which maps the key list and
    the generator state to the visiting order and the next state. \<open>shuffle\<close> also
    stands for the order in which the \<^verbatim>\<open>unordered_map\<close> is iterated.
\<close>

type_synonym point = "real \<times> real"
type_synonym cell = "int \<times> int"
type_synonym grid = "(cell \<times> nat list) list"
type_synonym mask = "bool list"

text \<open>The error taxonomy callers are told to expect. The source has no \<^verbatim>\<open>throw\<close>
  and no argument check, so the operation below always returns with \<open>Inr\<close>.\<close>

datatype error = InvalidArgument | DimensionMismatch

subsection \<open>Distances\<close>

text \<open>\<^verbatim>\<open>atan2(y, x)\<close> of the C library, on reals.\<close>

definition atan2 :: "real \<Rightarrow> real \<Rightarrow> real" where
  "atan2 y x =
     (if 0 < x then arctan (y / x)
      else if x < 0 then (if 0 \<le> y then arctan (y / x) + pi else arctan (y / x) - pi)
      else if 0 < y then pi / 2
      else if y < 0 then - (pi / 2)
      else 0)"

definition haversineDistance :: "real \<Rightarrow> real \<Rightarrow> real \<Rightarrow> real \<Rightarrow> real \<Rightarrow> real" where
  "haversineDistance lon1 lat1 lon2 lat2 R =
     (let dLat = (lat2 - lat1) * pi / 180;
          dLon = (lon2 - lon1) * pi / 180;
          a = sin (dLat / 2) * sin (dLat / 2) +
              cos (lat1 * pi / 180) * cos (lat2 * pi / 180) *
              sin (dLon / 2) * sin (dLon / 2);
          c = 2 * atan2 (sqrt a) (sqrt (1 - a))
      in R * c)"

definition euclideanDistance :: "real \<Rightarrow> real \<Rightarrow> real \<Rightarrow> real \<Rightarrow> real" where
  "euclideanDistance lon1 lat1 lon2 lat2 = sqrt ((lon2 - lon1)\<^sup>2 + (lat2 - lat1)\<^sup>2)"

text \<open>Lines 93 to 98: the metric is chosen by comparing the string with "haversine".\<close>

definition distance :: "string \<Rightarrow> real \<Rightarrow> point \<Rightarrow> point \<Rightarrow> real" where
  "distance distance_metric R p1 p2 =
     (if distance_metric = ''haversine''
      then haversineDistance (fst p1) (snd p1) (fst p2) (snd p2) R
      else euclideanDistance (fst p1) (snd p1) (fst p2) (snd p2))"

subsection \<open>The grid\<close>

text \<open>\<^verbatim>\<open>std::round\<close>: to the nearest integer, halfway cases away from zero.\<close>

definition std_round :: "real \<Rightarrow> int" where
  "std_round x = (if 0 \<le> x then \<lfloor>x + 1 / 2\<rfloor> else \<lceil>x - 1 / 2\<rceil>)"

text \<open>
  Rounding a real to binary64, to nearest with ties to even: a number of magnitude from
  \<open>pow2 e\<close> up to \<open>pow2 (e + 1)\<close> is rounded to a multiple of \<open>pow2 (e - 52)\<close>, and a
  number below \<open>pow2 (- 1022)\<close> to a multiple of \<open>pow2 (- 1074)\<close>. A result beyond the
  largest double, an infinity in C++, stays finite here; the cast below takes both to
  the same \<^verbatim>\<open>int\<close>.
\<close>

definition pow2 :: "int \<Rightarrow> real" where
  "pow2 e = (if 0 \<le> e then 2 ^ nat e else 1 / 2 ^ nat (- e))"

definition round_ties_even :: "real \<Rightarrow> int" where
  "round_ties_even m =
     (let f = \<lfloor>m\<rfloor>
      in if m - of_int f < 1 / 2 then f
         else if 1 / 2 < m - of_int f then f + 1
         else if even f then f else f + 1)"

definition binary64_exponent :: "real \<Rightarrow> int" where
  "binary64_exponent x = max \<lfloor>log 2 \<bar>x\<bar>\<rfloor> (- 1022)"

definition to_double :: "real \<Rightarrow> real" where
  "to_double x =
     (if x = 0 then 0
      else (let ulp = pow2 (binary64_exponent x - 52)
            in of_int (round_ties_even (x / ulp)) * ulp))"

text \<open>The quotient \<^verbatim>\<open>x / y\<close> of two doubles, for \<open>y\<close> other than 0.\<close>

definition double_div :: "real \<Rightarrow> real \<Rightarrow> real" where
  "double_div x y = to_double (x / y)"

text \<open>\<^verbatim>\<open>static_cast<int>\<close> of a double with an integer value.\<close>

definition static_cast_int :: "int \<Rightarrow> int" where
  "static_cast_int z = (if - 2147483648 \<le> z \<and> z \<le> 2147483647 then z else - 2147483648)"

text \<open>\<^verbatim>\<open>a + b\<close> on \<^verbatim>\<open>int\<close>.\<close>

definition int_add :: "int \<Rightarrow> int \<Rightarrow> int" where
  "int_add a b = (a + b + 2147483648) mod 4294967296 - 2147483648"

text \<open>The literal \<^verbatim>\<open>111.32\<close> of line 37: the double nearest to it.\<close>

definition km_per_degree :: real where
  "km_per_degree = to_double 111.32"

text \<open>Line 37.\<close>

definition precision_of :: "real \<Rightarrow> real" where
  "precision_of thin_dist = double_div thin_dist km_per_degree"

text \<open>\<^verbatim>\<open>static_cast<int>(std::round(x / precision))\<close> of lines 44, 45, 82 and 83. With a
  precision of 0 the quotient is an infinity or NaN, and so is its rounding, which the
  cast takes to \<^verbatim>\<open>INT_MIN\<close>.\<close>

definition cell_index :: "real \<Rightarrow> real \<Rightarrow> int" where
  "cell_index x precision =
     (if precision = 0 then - 2147483648
      else static_cast_int (std_round (double_div x precision)))"

text \<open>Lines 44 to 46: the key of a point.\<close>

definition grid_cell_of :: "real \<Rightarrow> point \<Rightarrow> cell" where
  "grid_cell_of precision p = (cell_index (fst p) precision, cell_index (snd p) precision)"

text \<open>\<^verbatim>\<open>grid[grid_cell].push_back(i)\<close>: a missing key is created with an empty
  bucket first.\<close>

fun grid_push :: "cell \<Rightarrow> nat \<Rightarrow> grid \<Rightarrow> grid" where
  "grid_push c i [] = [(c, [i])]"
| "grid_push c i ((k, b) # rest) =
     (if k = c then (k, b @ [i]) # rest else (k, b) # grid_push c i rest)"

definition populate :: "point list \<Rightarrow> real \<Rightarrow> grid" where
  "populate coordinates precision =
     fold (\<lambda>i grid. grid_push (grid_cell_of precision (coordinates ! i)) i grid)
       [0..<length coordinates] []"

text \<open>\<^verbatim>\<open>grid[grid_cell]\<close> read at line 70, for a key taken from the grid. A key that
  is not in the grid, which a shuffle of the keys never yields, reads as the empty bucket
  that \<^verbatim>\<open>operator[]\<close> would create for it.\<close>

definition bucket :: "grid \<Rightarrow> cell \<Rightarrow> nat list" where
  "bucket grid c = (case map_of grid c of None \<Rightarrow> [] | Some b \<Rightarrow> b)"

subsection \<open>One trial pass\<close>

text \<open>Lines 88 to 104: the body of the innermost loop, for one \<open>point2_idx\<close>.\<close>

definition compare_points ::
  "point list \<Rightarrow> real \<Rightarrow> string \<Rightarrow> real \<Rightarrow> nat \<Rightarrow> nat \<Rightarrow> mask \<Rightarrow> mask" where
  "compare_points coordinates thin_dist distance_metric R point1_idx point2_idx trial_keep_points =
     (if point2_idx \<noteq> point1_idx \<and> trial_keep_points ! point2_idx
      then (if distance distance_metric R (coordinates ! point1_idx) (coordinates ! point2_idx)
                 \<le> thin_dist
            then trial_keep_points[point2_idx := False]
            else trial_keep_points)
      else trial_keep_points)"

text \<open>Lines 80 and 81: the offsets, \<open>lat_offset\<close> outermost.\<close>

definition offsets :: "(int \<times> int) list" where
  "offsets = concat (map (\<lambda>lat_offset. map (\<lambda>lon_offset. (lat_offset, lon_offset)) [-1, 0, 1])
                      [-1, 0, 1])"

text \<open>Lines 82 to 84: the key of one neighbouring cell.\<close>

definition neighbor_cell :: "point list \<Rightarrow> real \<Rightarrow> nat \<Rightarrow> int \<times> int \<Rightarrow> cell" where
  "neighbor_cell coordinates thin_dist point1_idx off =
     (let precision = precision_of thin_dist;
          lon1 = fst (coordinates ! point1_idx);
          lat1 = snd (coordinates ! point1_idx);
          neighbor_lon = int_add (cell_index lon1 precision) (snd off);
          neighbor_lat = int_add (cell_index lat1 precision) (fst off)
      in (neighbor_lon, neighbor_lat))"

text \<open>Lines 82 to 107: one neighbouring cell.\<close>

definition scan_cell ::
  "point list \<Rightarrow> real \<Rightarrow> string \<Rightarrow> real \<Rightarrow> grid \<Rightarrow> nat \<Rightarrow> int \<times> int \<Rightarrow> mask \<Rightarrow> mask" where
  "scan_cell coordinates thin_dist distance_metric R grid point1_idx off trial_keep_points =
     (case map_of grid (neighbor_cell coordinates thin_dist point1_idx off) of
        None \<Rightarrow> trial_keep_points
      | Some b \<Rightarrow>
          fold (compare_points coordinates thin_dist distance_metric R point1_idx) b
            trial_keep_points)"

text \<open>Lines 73 to 108: one \<open>point1_idx\<close>, skipped when it is no longer kept.\<close>

definition thin_around ::
  "point list \<Rightarrow> real \<Rightarrow> string \<Rightarrow> real \<Rightarrow> grid \<Rightarrow> nat \<Rightarrow> mask \<Rightarrow> mask" where
  "thin_around coordinates thin_dist distance_metric R grid point1_idx trial_keep_points =
     (if \<not> trial_keep_points ! point1_idx then trial_keep_points
      else fold (scan_cell coordinates thin_dist distance_metric R grid point1_idx) offsets
             trial_keep_points)"

text \<open>Lines 69 to 110: the sampled cells in order, each cell's points in bucket order.\<close>

definition thin_cell ::
  "point list \<Rightarrow> real \<Rightarrow> string \<Rightarrow> real \<Rightarrow> grid \<Rightarrow> cell \<Rightarrow> mask \<Rightarrow> mask" where
  "thin_cell coordinates thin_dist distance_metric R grid grid_cell trial_keep_points =
     fold (thin_around coordinates thin_dist distance_metric R grid) (bucket grid grid_cell)
       trial_keep_points"

definition trial_pass ::
  "point list \<Rightarrow> real \<Rightarrow> string \<Rightarrow> real \<Rightarrow> grid \<Rightarrow> cell list \<Rightarrow> mask \<Rightarrow> mask" where
  "trial_pass coordinates thin_dist distance_metric R grid grid_cells trial_keep_points =
     fold (thin_cell coordinates thin_dist distance_metric R grid) grid_cells trial_keep_points"

text \<open>\<^verbatim>\<open>Rcpp::sum\<close> of a logical vector: the number of true entries.\<close>

definition sum_true :: "mask \<Rightarrow> int" where
  "sum_true m = int (length (filter (\<lambda>b. b) m))"

subsection \<open>The trials\<close>

record 'g loop_state =
  vectors :: "nat \<Rightarrow> mask"
  keep_points :: nat
  best_size :: int
  all_keep_points :: "nat list"
  gen :: 'g

text \<open>Lines 59 to 110 of one trial. \<open>trial_keep_points\<close> is the handle that
  \<open>keep_points\<close> holds, so the pass reads and writes the vector both name. The result
  is the content of that vector after the pass, and the generator after the shuffle.\<close>

definition run_pass ::
  "(cell list \<Rightarrow> 'g \<Rightarrow> cell list \<times> 'g) \<Rightarrow> point list \<Rightarrow> real \<Rightarrow> string \<Rightarrow> real \<Rightarrow>
   grid \<Rightarrow> 'g loop_state \<Rightarrow> mask \<times> 'g" where
  "run_pass shuffle coordinates thin_dist distance_metric R grid st =
     (let trial_keep_points = keep_points st;
          (grid_cells, g) = shuffle (map fst grid) (gen st)
      in (trial_pass coordinates thin_dist distance_metric R grid grid_cells
            (vectors st trial_keep_points), g))"

text \<open>Line 114: the test \<^verbatim>\<open>current_size > best_size\<close> of the trial that starts in \<open>st\<close>.\<close>

definition improves ::
  "(cell list \<Rightarrow> 'g \<Rightarrow> cell list \<times> 'g) \<Rightarrow> point list \<Rightarrow> real \<Rightarrow> string \<Rightarrow> real \<Rightarrow>
   grid \<Rightarrow> 'g loop_state \<Rightarrow> bool" where
  "improves shuffle coordinates thin_dist distance_metric R grid st \<longleftrightarrow>
     sum_true (fst (run_pass shuffle coordinates thin_dist distance_metric R grid st))
       > best_size st"

text \<open>Lines 59 to 122: the body of the loop over trials.\<close>

definition run_trial ::
  "(cell list \<Rightarrow> 'g \<Rightarrow> cell list \<times> 'g) \<Rightarrow> point list \<Rightarrow> real \<Rightarrow> bool \<Rightarrow> string \<Rightarrow> real \<Rightarrow>
   grid \<Rightarrow> 'g loop_state \<Rightarrow> 'g loop_state" where
  "run_trial shuffle coordinates thin_dist all_trials distance_metric R grid st =
     (let trial_keep_points = keep_points st;
          (kept, g) = run_pass shuffle coordinates thin_dist distance_metric R grid st;
          vs = (vectors st)(trial_keep_points := kept);
          current_size = sum_true kept;
          better = improves shuffle coordinates thin_dist distance_metric R grid st
      in \<lparr>vectors = vs,
          keep_points = (if better then trial_keep_points else keep_points st),
          best_size = (if better then current_size else best_size st),
          all_keep_points = (if all_trials then all_keep_points st @ [trial_keep_points]
                             else all_keep_points st),
          gen = g\<rparr>)"

primrec trial_loop ::
  "(cell list \<Rightarrow> 'g \<Rightarrow> cell list \<times> 'g) \<Rightarrow> point list \<Rightarrow> real \<Rightarrow> bool \<Rightarrow> string \<Rightarrow> real \<Rightarrow>
   grid \<Rightarrow> nat \<Rightarrow> 'g loop_state \<Rightarrow> 'g loop_state" where
  "trial_loop shuffle coordinates thin_dist all_trials distance_metric R grid 0 st = st"
| "trial_loop shuffle coordinates thin_dist all_trials distance_metric R grid (Suc k) st =
     trial_loop shuffle coordinates thin_dist all_trials distance_metric R grid k
       (run_trial shuffle coordinates thin_dist all_trials distance_metric R grid st)"

text \<open>Lines 36 to 55: the state before the first trial. One logical vector is
  allocated, under handle 0.\<close>

definition initial_state :: "(int \<Rightarrow> 'g) \<Rightarrow> nat \<Rightarrow> int \<Rightarrow> 'g loop_state" where
  "initial_state seed_gen n seed =
     \<lparr>vectors = (\<lambda>h. [])(0 := replicate n True),
      keep_points = 0,
      best_size = 0,
      all_keep_points = [],
      gen = seed_gen seed\<rparr>"

definition rounding_hashing_thinning ::
  "(int \<Rightarrow> 'g) \<Rightarrow> (cell list \<Rightarrow> 'g \<Rightarrow> cell list \<times> 'g) \<Rightarrow>
   point list \<Rightarrow> real \<Rightarrow> int \<Rightarrow> bool \<Rightarrow> string \<Rightarrow> real \<Rightarrow> int \<Rightarrow> error + mask list" where
  "rounding_hashing_thinning seed_gen shuffle coordinates thin_dist trials all_trials
       distance_metric R seed =
     (let n = length coordinates;
          grid = populate coordinates (precision_of thin_dist);
          st = trial_loop shuffle coordinates thin_dist all_trials distance_metric R grid
                 (nat trials) (initial_state seed_gen n seed)
      in if all_trials then Inr (map (vectors st) (all_keep_points st))
         else Inr [vectors st (keep_points st)])"

subsection \<open>The trials on copies\<close>

text \<open>
  The loop over trials as section 4.4 of the specification words it, for comparison with
  the source: every trial works on a fresh copy of the best mask so far, the best mask is
  a value that a better trial replaces, and the recorded trial masks are values too. It
  is what the source would do with \<^verbatim>\<open>Rcpp::clone\<close> at line 59.
\<close>

record 'g cloned_state =
  global_best :: mask
  best_count :: int
  trial_masks :: "mask list"
  cloned_gen :: 'g

definition run_trial_cloned ::
  "(cell list \<Rightarrow> 'g \<Rightarrow> cell list \<times> 'g) \<Rightarrow> point list \<Rightarrow> real \<Rightarrow> bool \<Rightarrow> string \<Rightarrow> real \<Rightarrow>
   grid \<Rightarrow> 'g cloned_state \<Rightarrow> 'g cloned_state" where
  "run_trial_cloned shuffle coordinates thin_dist all_trials distance_metric R grid st =
     (let (grid_cells, g) = shuffle (map fst grid) (cloned_gen st);
          trial = trial_pass coordinates thin_dist distance_metric R grid grid_cells
                    (global_best st);
          current_size = sum_true trial
      in \<lparr>global_best = (if current_size > best_count st then trial else global_best st),
          best_count = (if current_size > best_count st then current_size else best_count st),
          trial_masks = (if all_trials then trial_masks st @ [trial] else trial_masks st),
          cloned_gen = g\<rparr>)"

primrec trial_loop_cloned ::
  "(cell list \<Rightarrow> 'g \<Rightarrow> cell list \<times> 'g) \<Rightarrow> point list \<Rightarrow> real \<Rightarrow> bool \<Rightarrow> string \<Rightarrow> real \<Rightarrow>
   grid \<Rightarrow> nat \<Rightarrow> 'g cloned_state \<Rightarrow> 'g cloned_state" where
  "trial_loop_cloned shuffle coordinates thin_dist all_trials distance_metric R grid 0 st = st"
| "trial_loop_cloned shuffle coordinates thin_dist all_trials distance_metric R grid (Suc k) st =
     trial_loop_cloned shuffle coordinates thin_dist all_trials distance_metric R grid k
       (run_trial_cloned shuffle coordinates thin_dist all_trials distance_metric R grid st)"

definition thinning_cloned ::
  "(int \<Rightarrow> 'g) \<Rightarrow> (cell list \<Rightarrow> 'g \<Rightarrow> cell list \<times> 'g) \<Rightarrow>
   point list \<Rightarrow> real \<Rightarrow> int \<Rightarrow> bool \<Rightarrow> string \<Rightarrow> real \<Rightarrow> int \<Rightarrow> mask list" where
  "thinning_cloned seed_gen shuffle coordinates thin_dist trials all_trials distance_metric R seed =
     (let grid = populate coordinates (precision_of thin_dist);
          st = trial_loop_cloned shuffle coordinates thin_dist all_trials distance_metric R grid
                 (nat trials)
                 \<lparr>global_best = replicate (length coordinates) True, best_count = 0,
                  trial_masks = [], cloned_gen = seed_gen seed\<rparr>
      in if all_trials then trial_masks st else [global_best st])"

text \<open>The loop of the source and the loop on copies in step: the shared vector holds
  the best mask, every recorded trial mask is that mask too, and the generators agree.\<close>

definition in_step :: "'g loop_state \<Rightarrow> 'g cloned_state \<Rightarrow> bool" where
  "in_step st c \<longleftrightarrow>
     keep_points st = 0 \<and> global_best c = vectors st 0 \<and>
     trial_masks c = map (vectors st) (all_keep_points st) \<and>
     set (all_keep_points st) \<subseteq> {0} \<and>
     cloned_gen c = gen st"

subsection \<open>Auxiliary notions for the proofs\<close>

text \<open>A step \<open>f\<close> on masks clears the set \<open>S\<close> when it keeps the length and switches
  off exactly the entries in \<open>S\<close>.\<close>

definition clears :: "(mask \<Rightarrow> mask) \<Rightarrow> nat set \<Rightarrow> bool" where
  "clears f S \<longleftrightarrow>
     (\<forall>m. length (f m) = length m \<and> (\<forall>i<length m. (f m) ! i = (m ! i \<and> i \<notin> S)))"

text \<open>The points in the nine cells around the cell of \<open>p\<close>, and those of them that
  \<open>p\<close> suppresses when it is visited while kept.\<close>

definition neighbours :: "point list \<Rightarrow> real \<Rightarrow> grid \<Rightarrow> nat \<Rightarrow> nat set" where
  "neighbours coordinates thin_dist grid p =
     (\<Union>off \<in> set offsets.
        set (bucket grid (neighbor_cell coordinates thin_dist p off)))"

definition targets :: "point list \<Rightarrow> real \<Rightarrow> string \<Rightarrow> real \<Rightarrow> grid \<Rightarrow> nat \<Rightarrow> nat set" where
  "targets coordinates thin_dist distance_metric R grid p =
     {i \<in> neighbours coordinates thin_dist grid p.
        i \<noteq> p \<and> distance distance_metric R (coordinates ! p) (coordinates ! i) \<le> thin_dist}"

text \<open>A concrete generator and shuffle, for instantiating the theorems: the state counts
  the shuffles drawn, and the \<open>g\<close>-th shuffle rotates the key list by \<open>g\<close>.\<close>

definition counter_gen :: "int \<Rightarrow> nat" where
  "counter_gen seed = nat \<bar>seed\<bar>"

definition rotate_shuffle :: "cell list \<Rightarrow> nat \<Rightarrow> cell list \<times> nat" where
  "rotate_shuffle grid_cells g = (rotate g grid_cells, Suc g)"

text \<open>Three points for the grid, with coordinates that are doubles: two of them fall
  into the cell \<open>(0, -1)\<close> of a grid of precision 1, one into the cell \<open>(3, 0)\<close>.\<close>

definition three_points :: "point list" where
  "three_points = [(0.25, - 0.5), (2.5, 0), (0, - 0.75)]"

section \<open>Properties\<close>

subsection \<open>Steps that clear a set of entries\<close>

lemma clears_id: "clears (\<lambda>m. m) {}"
  by (simp add: clears_def)

lemma clears_comp: "clears f S \<Longrightarrow> clears h T \<Longrightarrow> clears (h \<circ> f) (S \<union> T)"
  by (auto simp: clears_def)

lemma clears_fold:
  "(\<And>x. x \<in> set xs \<Longrightarrow> clears (F x) (S x)) \<Longrightarrow> clears (fold F xs) (\<Union>x\<in>set xs. S x)"
proof (induction xs)
  case Nil
  then show ?case by (simp add: clears_def)
next
  case (Cons x xs)
  have a: "clears (F x) (S x)" using Cons.prems by simp
  have b: "clears (fold F xs) (\<Union>x\<in>set xs. S x)" using Cons by simp
  have "clears (fold F xs \<circ> F x) (S x \<union> (\<Union>x\<in>set xs. S x))"
    by (rule clears_comp [OF a b])
  then show ?case by (simp add: comp_def)
qed

lemma nth_update_False: "i < length m \<Longrightarrow> (m[p := False]) ! i = (m ! i \<and> i \<noteq> p)"
  by (cases "i = p") simp_all

lemma clears_compare_points:
  "clears (compare_points coordinates thin_dist distance_metric R p1 p2)
     {i. i = p2 \<and> p2 \<noteq> p1 \<and>
         distance distance_metric R (coordinates ! p1) (coordinates ! p2) \<le> thin_dist}"
  by (auto simp: clears_def compare_points_def nth_update_False)

lemma clears_scan_cell:
  "clears (scan_cell coordinates thin_dist distance_metric R grid p1 off)
     {i \<in> set (bucket grid (neighbor_cell coordinates thin_dist p1 off)).
        i \<noteq> p1 \<and> distance distance_metric R (coordinates ! p1) (coordinates ! i) \<le> thin_dist}"
proof (cases "map_of grid (neighbor_cell coordinates thin_dist p1 off)")
  case None
  then show ?thesis
    by (simp add: scan_cell_def bucket_def clears_def)
next
  case (Some b)
  have "clears (fold (compare_points coordinates thin_dist distance_metric R p1) b)
          (\<Union>p2\<in>set b. {i. i = p2 \<and> p2 \<noteq> p1 \<and>
             distance distance_metric R (coordinates ! p1) (coordinates ! p2) \<le> thin_dist})"
    by (rule clears_fold) (rule clears_compare_points)
  moreover have "(\<Union>p2\<in>set b. {i. i = p2 \<and> p2 \<noteq> p1 \<and>
             distance distance_metric R (coordinates ! p1) (coordinates ! p2) \<le> thin_dist})
        = {i \<in> set b. i \<noteq> p1 \<and>
             distance distance_metric R (coordinates ! p1) (coordinates ! i) \<le> thin_dist}"
    by auto
  moreover have "scan_cell coordinates thin_dist distance_metric R grid p1 off
        = fold (compare_points coordinates thin_dist distance_metric R p1) b"
    using Some by (intro ext) (simp add: scan_cell_def)
  ultimately show ?thesis using Some
    by (simp add: bucket_def)
qed

lemma clears_offsets:
  "clears (fold (scan_cell coordinates thin_dist distance_metric R grid p1) offsets)
     (targets coordinates thin_dist distance_metric R grid p1)"
proof -
  have "clears (fold (scan_cell coordinates thin_dist distance_metric R grid p1) offsets)
     (\<Union>off\<in>set offsets. {i \<in> set (bucket grid (neighbor_cell coordinates thin_dist p1 off)).
        i \<noteq> p1 \<and> distance distance_metric R (coordinates ! p1) (coordinates ! i) \<le> thin_dist})"
    by (rule clears_fold) (rule clears_scan_cell)
  moreover have "(\<Union>off\<in>set offsets. {i \<in> set (bucket grid (neighbor_cell coordinates thin_dist p1 off)).
        i \<noteq> p1 \<and> distance distance_metric R (coordinates ! p1) (coordinates ! i) \<le> thin_dist})
     = targets coordinates thin_dist distance_metric R grid p1"
    unfolding targets_def neighbours_def by blast
  ultimately show ?thesis by simp
qed

lemma length_thin_around [simp]:
  "length (thin_around coordinates thin_dist distance_metric R grid p m) = length m"
  using clears_offsets [of coordinates thin_dist distance_metric R grid p]
  by (simp add: thin_around_def clears_def)

lemma nth_thin_around:
  "i < length m \<Longrightarrow>
   thin_around coordinates thin_dist distance_metric R grid p m ! i =
     (m ! i \<and> \<not> (m ! p \<and> i \<in> targets coordinates thin_dist distance_metric R grid p))"
  using clears_offsets [of coordinates thin_dist distance_metric R grid p]
  by (simp add: thin_around_def clears_def)

subsection \<open>A pass as one fold over the visited points\<close>

lemma fold_concat_map:
  "fold f (concat (map h cs)) m = fold (\<lambda>c. fold f (h c)) cs m"
  by (induction cs arbitrary: m) simp_all

lemma trial_pass_points:
  "trial_pass coordinates thin_dist distance_metric R grid grid_cells m =
     fold (thin_around coordinates thin_dist distance_metric R grid)
       (concat (map (bucket grid) grid_cells)) m"
proof -
  have "thin_cell coordinates thin_dist distance_metric R grid =
          (\<lambda>c. fold (thin_around coordinates thin_dist distance_metric R grid) (bucket grid c))"
    by (intro ext) (simp add: thin_cell_def)
  then show ?thesis
    by (simp add: trial_pass_def fold_concat_map)
qed

lemma length_fold_thin [simp]:
  "length (fold (thin_around coordinates thin_dist distance_metric R grid) ps m) = length m"
  by (induction ps arbitrary: m) simp_all

lemma fold_thin_mono:
  "i < length m \<Longrightarrow> fold (thin_around coordinates thin_dist distance_metric R grid) ps m ! i
     \<Longrightarrow> m ! i"
proof (induction ps arbitrary: m)
  case Nil
  then show ?case by simp
next
  case (Cons p ps)
  have "thin_around coordinates thin_dist distance_metric R grid p m ! i"
    using Cons.IH [of "thin_around coordinates thin_dist distance_metric R grid p m"] Cons.prems
    by simp
  then show ?case using Cons.prems(1) by (simp add: nth_thin_around)
qed

lemma not_self_target: "p \<notin> targets coordinates thin_dist distance_metric R grid p"
  by (simp add: targets_def)

lemma fold_thin_nonempty:
  "\<forall>p\<in>set ps. p < length m \<Longrightarrow> \<exists>i<length m. m ! i \<Longrightarrow>
   \<exists>i<length m. fold (thin_around coordinates thin_dist distance_metric R grid) ps m ! i"
proof (induction ps arbitrary: m)
  case Nil
  then show ?case by simp
next
  case (Cons p ps)
  let ?m1 = "thin_around coordinates thin_dist distance_metric R grid p m"
  from Cons.prems obtain i where i: "i < length m" "m ! i" by blast
  have p: "p < length m" using Cons.prems by simp
  have "\<exists>j<length ?m1. ?m1 ! j"
  proof (cases "m ! p")
    case True
    then have "?m1 ! p" using p by (simp add: nth_thin_around not_self_target)
    then show ?thesis using p by auto
  next
    case False
    then have "?m1 ! i" using i by (simp add: nth_thin_around)
    then show ?thesis using i by auto
  qed
  moreover have "\<forall>q\<in>set ps. q < length ?m1" using Cons.prems by simp
  ultimately show ?case using Cons.IH [of ?m1] by simp
qed

lemma fold_thin_settled:
  "p \<in> set ps \<Longrightarrow> p < length m \<Longrightarrow> i < length m \<Longrightarrow>
   i \<in> targets coordinates thin_dist distance_metric R grid p \<Longrightarrow>
   \<not> (fold (thin_around coordinates thin_dist distance_metric R grid) ps m ! p \<and>
      fold (thin_around coordinates thin_dist distance_metric R grid) ps m ! i)"
proof (induction ps arbitrary: m)
  case Nil
  then show ?case by simp
next
  case (Cons q qs)
  let ?m1 = "thin_around coordinates thin_dist distance_metric R grid q m"
  show ?case
  proof (cases "p \<in> set qs")
    case True
    then show ?thesis using Cons.IH [of ?m1] Cons.prems by simp
  next
    case False
    then have pq: "q = p" using Cons.prems by simp
    have "\<not> (?m1 ! p \<and> ?m1 ! i)"
      using Cons.prems pq by (simp add: nth_thin_around)
    moreover have "fold (thin_around coordinates thin_dist distance_metric R grid) qs ?m1 ! p
        \<Longrightarrow> ?m1 ! p"
      using Cons.prems by (elim fold_thin_mono [rotated]) simp
    moreover have "fold (thin_around coordinates thin_dist distance_metric R grid) qs ?m1 ! i
        \<Longrightarrow> ?m1 ! i"
      using Cons.prems by (elim fold_thin_mono [rotated]) simp
    ultimately show ?thesis by auto
  qed
qed

lemma thin_around_fixed:
  "\<forall>i<length m. i \<in> targets coordinates thin_dist distance_metric R grid p \<longrightarrow>
      \<not> (m ! p \<and> m ! i) \<Longrightarrow>
   thin_around coordinates thin_dist distance_metric R grid p m = m"
  by (rule nth_equalityI) (auto simp: nth_thin_around)

lemma fold_thin_fixed:
  "\<forall>p\<in>set ps. \<forall>i<length m. i \<in> targets coordinates thin_dist distance_metric R grid p \<longrightarrow>
      \<not> (m ! p \<and> m ! i) \<Longrightarrow>
   fold (thin_around coordinates thin_dist distance_metric R grid) ps m = m"
proof (induction ps)
  case Nil
  then show ?case by simp
next
  case (Cons q qs)
  have "thin_around coordinates thin_dist distance_metric R grid q m = m"
    using Cons.prems by (intro thin_around_fixed) simp
  then show ?case using Cons by simp
qed

lemma fold_thin_twice:
  assumes "set qs \<subseteq> set ps" and "\<forall>p\<in>set ps. p < length m"
  shows "fold (thin_around coordinates thin_dist distance_metric R grid) qs
           (fold (thin_around coordinates thin_dist distance_metric R grid) ps m) =
         fold (thin_around coordinates thin_dist distance_metric R grid) ps m"
proof (rule fold_thin_fixed, intro ballI allI impI)
  fix p i
  assume "p \<in> set qs"
    and "i < length (fold (thin_around coordinates thin_dist distance_metric R grid) ps m)"
    and "i \<in> targets coordinates thin_dist distance_metric R grid p"
  then show "\<not> (fold (thin_around coordinates thin_dist distance_metric R grid) ps m ! p \<and>
      fold (thin_around coordinates thin_dist distance_metric R grid) ps m ! i)"
    using assms by (intro fold_thin_settled) auto
qed

lemma count_le:
  "length xs = length ys \<Longrightarrow> \<forall>i<length xs. xs ! i \<longrightarrow> ys ! i \<Longrightarrow>
   length (filter (\<lambda>b. b) xs) \<le> length (filter (\<lambda>b. b) ys)"
proof (induction xs ys rule: list_induct2)
  case Nil
  then show ?case by simp
next
  case (Cons x xs y ys)
  have "\<forall>i<length xs. xs ! i \<longrightarrow> ys ! i"
    using Cons.prems by (metis Suc_less_eq length_Cons nth_Cons_Suc)
  moreover have "x \<longrightarrow> y" using Cons.prems by (metis length_Cons nth_Cons_0 zero_less_Suc)
  ultimately show ?case using Cons.IH by auto
qed

lemma sum_true_fold_thin:
  "sum_true (fold (thin_around coordinates thin_dist distance_metric R grid) ps m) \<le> sum_true m"
proof -
  let ?out = "fold (thin_around coordinates thin_dist distance_metric R grid) ps m"
  have "length ?out = length m" by simp
  moreover have "\<forall>i<length ?out. ?out ! i \<longrightarrow> m ! i"
    using fold_thin_mono [of _ m coordinates thin_dist distance_metric R grid ps] by simp
  ultimately have "length (filter (\<lambda>b. b) ?out) \<le> length (filter (\<lambda>b. b) m)"
    by (rule count_le)
  then show ?thesis by (simp add: sum_true_def)
qed

subsection \<open>The populated grid\<close>

lemma map_of_grid_push:
  "map_of (grid_push c i g) c' =
     (if c' = c then Some (bucket g c @ [i]) else map_of g c')"
  by (induction g) (auto simp: bucket_def)

lemma map_of_fold_push:
  "map_of (fold (\<lambda>i g. grid_push (key i) i g) ns g0) c =
     (case map_of g0 c of
        None \<Rightarrow> (if filter (\<lambda>i. key i = c) ns = [] then None
                 else Some (filter (\<lambda>i. key i = c) ns))
      | Some b \<Rightarrow> Some (b @ filter (\<lambda>i. key i = c) ns))"
proof (induction ns arbitrary: g0)
  case Nil
  then show ?case by (simp split: option.split)
next
  case (Cons n ns)
  show ?case
    by (simp add: Cons.IH map_of_grid_push bucket_def split: option.split)
qed

lemma map_of_populate:
  "map_of (populate coordinates precision) c =
     (if filter (\<lambda>i. grid_cell_of precision (coordinates ! i) = c) [0..<length coordinates] = []
      then None
      else Some (filter (\<lambda>i. grid_cell_of precision (coordinates ! i) = c)
                   [0..<length coordinates]))"
  unfolding populate_def
  by (simp add: map_of_fold_push [where key = "\<lambda>i. grid_cell_of precision (coordinates ! i)"])

lemma bucket_populate:
  "bucket (populate coordinates precision) c =
     filter (\<lambda>i. grid_cell_of precision (coordinates ! i) = c) [0..<length coordinates]"
  by (simp add: bucket_def map_of_populate)

lemma bucket_populate_bound:
  "i \<in> set (bucket (populate coordinates precision) c) \<Longrightarrow> i < length coordinates"
  by (simp add: bucket_populate)

lemma visited_bound:
  "p \<in> set (concat (map (bucket (populate coordinates precision)) cells))
     \<Longrightarrow> p < length coordinates"
  by (auto dest: bucket_populate_bound)

lemma visited_same:
  "set cs = set ds \<Longrightarrow>
   set (concat (map (bucket grid) cs)) = set (concat (map (bucket grid) ds))"
  by simp




subsection \<open>One pass over the populated grid\<close>

lemma length_trial_pass [simp]:
  "length (trial_pass coordinates thin_dist distance_metric R grid grid_cells m) = length m"
  by (simp add: trial_pass_points)

lemma trial_pass_mono:
  "i < length m \<Longrightarrow> trial_pass coordinates thin_dist distance_metric R grid grid_cells m ! i
     \<Longrightarrow> m ! i"
  unfolding trial_pass_points by (rule fold_thin_mono)

lemma sum_true_trial_pass:
  "sum_true (trial_pass coordinates thin_dist distance_metric R grid grid_cells m) \<le> sum_true m"
  unfolding trial_pass_points by (rule sum_true_fold_thin)

lemma sum_true_pos: "0 < sum_true m \<longleftrightarrow> (\<exists>i<length m. m ! i)"
proof -
  have "0 < sum_true m \<longleftrightarrow> filter (\<lambda>b. b) m \<noteq> []"
    by (simp add: sum_true_def)
  also have "\<dots> \<longleftrightarrow> (\<exists>b\<in>set m. b)"
    by (simp add: filter_empty_conv)
  also have "\<dots> \<longleftrightarrow> (\<exists>i<length m. m ! i)"
    by (metis in_set_conv_nth)
  finally show ?thesis .
qed

lemma trial_pass_nonempty:
  assumes "length m = length coordinates" and "\<exists>i<length m. m ! i"
  shows "\<exists>i<length m. trial_pass coordinates thin_dist distance_metric R
            (populate coordinates precision) grid_cells m ! i"
  unfolding trial_pass_points
proof (rule fold_thin_nonempty)
  show "\<forall>p\<in>set (concat (map (bucket (populate coordinates precision)) grid_cells)).
          p < length m"
    using assms(1) visited_bound [of _ coordinates precision grid_cells] by simp
  show "\<exists>i<length m. m ! i" by (rule assms(2))
qed

lemma trial_pass_twice:
  assumes "length m = length coordinates" and "set ds \<subseteq> set cs"
  shows "trial_pass coordinates thin_dist distance_metric R (populate coordinates precision) ds
           (trial_pass coordinates thin_dist distance_metric R (populate coordinates precision)
              cs m) =
         trial_pass coordinates thin_dist distance_metric R (populate coordinates precision) cs m"
  unfolding trial_pass_points
proof (rule fold_thin_twice)
  show "set (concat (map (bucket (populate coordinates precision)) ds))
          \<subseteq> set (concat (map (bucket (populate coordinates precision)) cs))"
    using assms(2) by auto
  show "\<forall>p\<in>set (concat (map (bucket (populate coordinates precision)) cs)). p < length m"
    using assms(1) visited_bound [of _ coordinates precision cs] by simp
qed



subsection \<open>The loop over trials\<close>

lemma fst_run_pass:
  "fst (run_pass shuffle coordinates thin_dist distance_metric R grid st) =
     trial_pass coordinates thin_dist distance_metric R grid
       (fst (shuffle (map fst grid) (gen st))) (vectors st (keep_points st))"
  by (simp add: run_pass_def Let_def split: prod.split)

lemma snd_run_pass:
  "snd (run_pass shuffle coordinates thin_dist distance_metric R grid st) =
     snd (shuffle (map fst grid) (gen st))"
  by (simp add: run_pass_def Let_def split: prod.split)

lemma keep_points_run_trial [simp]:
  "keep_points (run_trial shuffle coordinates thin_dist all_trials distance_metric R grid st) =
     keep_points st"
  by (simp add: run_trial_def Let_def split: prod.split)

lemma vectors_run_trial:
  "vectors (run_trial shuffle coordinates thin_dist all_trials distance_metric R grid st) =
     (vectors st)(keep_points st :=
        fst (run_pass shuffle coordinates thin_dist distance_metric R grid st))"
  by (simp add: run_trial_def Let_def split: prod.split)

lemma gen_run_trial:
  "gen (run_trial shuffle coordinates thin_dist all_trials distance_metric R grid st) =
     snd (run_pass shuffle coordinates thin_dist distance_metric R grid st)"
  by (simp add: run_trial_def Let_def split: prod.split)

lemma all_keep_points_run_trial:
  "all_keep_points (run_trial shuffle coordinates thin_dist all_trials distance_metric R grid st) =
     (if all_trials then all_keep_points st @ [keep_points st] else all_keep_points st)"
  by (simp add: run_trial_def Let_def split: prod.split)

lemma best_size_run_trial:
  "best_size (run_trial shuffle coordinates thin_dist all_trials distance_metric R grid st) =
     max (best_size st)
       (sum_true (fst (run_pass shuffle coordinates thin_dist distance_metric R grid st)))"
  by (simp add: run_trial_def improves_def Let_def max_def split: prod.split)

lemma trial_loop_Suc:
  "trial_loop shuffle coordinates thin_dist all_trials distance_metric R grid (Suc k) st =
     run_trial shuffle coordinates thin_dist all_trials distance_metric R grid
       (trial_loop shuffle coordinates thin_dist all_trials distance_metric R grid k st)"
  by (induction k arbitrary: st) simp_all

lemma trial_loop_induct:
  assumes "P st"
    and "\<And>s. P s \<Longrightarrow> P (run_trial shuffle coordinates thin_dist all_trials distance_metric R grid s)"
  shows "P (trial_loop shuffle coordinates thin_dist all_trials distance_metric R grid k st)"
  using assms(1)
proof (induction k arbitrary: st)
  case 0
  then show ?case by simp
next
  case (Suc k)
  then show ?case using assms(2) by simp
qed

lemma keep_points_trial_loop [simp]:
  "keep_points (trial_loop shuffle coordinates thin_dist all_trials distance_metric R grid k st) =
     keep_points st"
  by (rule trial_loop_induct) simp_all

lemma all_keep_points_trial_loop:
  "all_keep_points (trial_loop shuffle coordinates thin_dist all_trials distance_metric R grid k st) =
     (if all_trials then all_keep_points st @ replicate k (keep_points st)
      else all_keep_points st)"
proof (induction k)
  case 0
  then show ?case by simp
next
  case (Suc k)
  show ?case
    using Suc unfolding trial_loop_Suc
    by (cases all_trials) (simp_all add: all_keep_points_run_trial replicate_append_same)
qed

lemma length_vectors_trial_loop:
  "length (vectors (trial_loop shuffle coordinates thin_dist all_trials distance_metric R grid k st)
             (keep_points st)) = length (vectors st (keep_points st))"
proof (induction k)
  case 0
  then show ?case by simp
next
  case (Suc k)
  show ?case
    unfolding trial_loop_Suc
    by (simp add: vectors_run_trial fst_run_pass Suc)
qed

text \<open>What the operation returns, in terms of the one vector of the store.\<close>

lemma thinning_result:
  "rounding_hashing_thinning seed_gen shuffle coordinates thin_dist trials all_trials
       distance_metric R seed =
     Inr (if all_trials
          then replicate (nat trials)
                 (vectors (trial_loop shuffle coordinates thin_dist all_trials distance_metric R
                    (populate coordinates (precision_of thin_dist)) (nat trials)
                    (initial_state seed_gen (length coordinates) seed)) 0)
          else [vectors (trial_loop shuffle coordinates thin_dist all_trials distance_metric R
                    (populate coordinates (precision_of thin_dist)) (nat trials)
                    (initial_state seed_gen (length coordinates) seed)) 0])"
  by (simp add: rounding_hashing_thinning_def Let_def all_keep_points_trial_loop
      initial_state_def map_replicate)

lemma length_final_vector:
  "length (vectors (trial_loop shuffle coordinates thin_dist all_trials distance_metric R
          grid k (initial_state seed_gen n seed)) 0) = n"
  using length_vectors_trial_loop [of shuffle coordinates thin_dist all_trials distance_metric R
        grid k "initial_state seed_gen n seed"]
  by (simp add: initial_state_def)

lemma final_vector_empty:
  "vectors (trial_loop shuffle coordinates thin_dist all_trials distance_metric R
          grid k (initial_state seed_gen 0 seed)) 0 = []"
  using length_final_vector [of shuffle coordinates thin_dist all_trials distance_metric R
        grid k seed_gen 0 seed]
  by simp

lemma compare_points_keeps_self:
  "p1 < length m \<Longrightarrow> m ! p1 \<Longrightarrow>
   compare_points coordinates thin_dist distance_metric R p1 p2 m ! p1"
  by (simp add: compare_points_def)

lemma thin_around_changes:
  "thin_around coordinates thin_dist distance_metric R grid p1 m \<noteq> m \<Longrightarrow> m ! p1"
  by (cases "m ! p1") (simp_all add: thin_around_def)

lemma trial_pass_retains_one:
  assumes "length m = length coordinates" and "0 < sum_true m"
  shows "0 < sum_true (trial_pass coordinates thin_dist distance_metric R
            (populate coordinates precision) grid_cells m)"
proof -
  have "\<exists>i<length m. m ! i" using assms(2) by (simp add: sum_true_pos)
  then have "\<exists>i<length m. trial_pass coordinates thin_dist distance_metric R
            (populate coordinates precision) grid_cells m ! i"
    using assms(1) by (intro trial_pass_nonempty)
  then show ?thesis by (simp add: sum_true_pos)
qed

lemma sum_true_replicate: "sum_true (replicate n True) = int n"
  by (simp add: sum_true_def)

lemma final_vector_retains_one:
  assumes "coordinates \<noteq> []"
  shows "0 < sum_true (vectors (trial_loop shuffle coordinates thin_dist all_trials
            distance_metric R (populate coordinates precision) k
            (initial_state seed_gen (length coordinates) seed)) 0)"
proof -
  let ?P = "\<lambda>st. keep_points st = 0 \<and> length (vectors st 0) = length coordinates \<and>
              0 < sum_true (vectors st 0)"
  have "?P (trial_loop shuffle coordinates thin_dist all_trials
            distance_metric R (populate coordinates precision) k
            (initial_state seed_gen (length coordinates) seed))"
  proof (rule trial_loop_induct)
    show "?P (initial_state seed_gen (length coordinates) seed)"
      using assms by (simp add: initial_state_def sum_true_replicate)
  next
    fix s :: "'a loop_state"
    assume "?P s"
    then show "?P (run_trial shuffle coordinates thin_dist all_trials distance_metric R
                    (populate coordinates precision) s)"
      by (simp add: vectors_run_trial fst_run_pass trial_pass_retains_one)
  qed
  then show ?thesis by simp
qed


lemma run_trial_settled:
  "sum_true (vectors (run_trial shuffle coordinates thin_dist all_trials distance_metric R grid s)
               (keep_points s))
     \<le> best_size (run_trial shuffle coordinates thin_dist all_trials distance_metric R grid s)"
  by (simp add: vectors_run_trial best_size_run_trial)

lemma settled_not_improves:
  assumes "sum_true (vectors s (keep_points s)) \<le> best_size s"
  shows "\<not> improves shuffle coordinates thin_dist distance_metric R grid s"
proof -
  have "sum_true (fst (run_pass shuffle coordinates thin_dist distance_metric R grid s))
          \<le> sum_true (vectors s (keep_points s))"
    by (simp add: fst_run_pass sum_true_trial_pass)
  then show ?thesis using assms by (simp add: improves_def)
qed

lemma later_trials_do_not_improve:
  assumes "1 \<le> k"
  shows "\<not> improves shuffle coordinates thin_dist distance_metric R grid
            (trial_loop shuffle coordinates thin_dist all_trials distance_metric R grid k st)"
proof -
  from assms obtain j where k: "k = Suc j" by (cases k) simp_all
  show ?thesis
    unfolding k trial_loop_Suc
    using run_trial_settled [of shuffle coordinates thin_dist all_trials distance_metric R grid
        "trial_loop shuffle coordinates thin_dist all_trials distance_metric R grid j st"]
    by (intro settled_not_improves) simp
qed

lemma best_size_after_first:
  "best_size (trial_loop shuffle coordinates thin_dist all_trials distance_metric R grid
                (Suc k) st) =
   best_size (run_trial shuffle coordinates thin_dist all_trials distance_metric R grid st)"
proof (induction k)
  case 0
  then show ?case by simp
next
  case (Suc k)
  let ?s = "trial_loop shuffle coordinates thin_dist all_trials distance_metric R grid (Suc k) st"
  have "\<not> improves shuffle coordinates thin_dist distance_metric R grid ?s"
    by (rule later_trials_do_not_improve) simp
  then have "best_size (run_trial shuffle coordinates thin_dist all_trials distance_metric R
                grid ?s) = best_size ?s"
    by (simp add: best_size_run_trial improves_def)
  then show ?case
    using Suc
    by (simp only: trial_loop_Suc [of shuffle coordinates thin_dist all_trials distance_metric R
          grid "Suc k" st])
qed

lemma vector_after_first:
  assumes perm: "\<And>grid_cells g. set (fst (shuffle grid_cells g)) = set grid_cells"
  shows "vectors (trial_loop shuffle coordinates thin_dist all_trials distance_metric R
            (populate coordinates precision) (Suc k)
            (initial_state seed_gen (length coordinates) seed)) 0 =
         trial_pass coordinates thin_dist distance_metric R (populate coordinates precision)
           (fst (shuffle (map fst (populate coordinates precision)) (seed_gen seed)))
           (replicate (length coordinates) True)"
proof (induction k)
  case 0
  show ?case
    by (simp add: vectors_run_trial fst_run_pass initial_state_def)
next
  case (Suc k)
  let ?s = "trial_loop shuffle coordinates thin_dist all_trials distance_metric R
              (populate coordinates precision) (Suc k)
              (initial_state seed_gen (length coordinates) seed)"
  have kp: "keep_points ?s = 0" by (simp add: initial_state_def)
  have "vectors (run_trial shuffle coordinates thin_dist all_trials distance_metric R
            (populate coordinates precision) ?s) 0 =
        trial_pass coordinates thin_dist distance_metric R (populate coordinates precision)
          (fst (shuffle (map fst (populate coordinates precision)) (gen ?s))) (vectors ?s 0)"
    using kp by (simp add: vectors_run_trial fst_run_pass)
  also have "\<dots> = trial_pass coordinates thin_dist distance_metric R
           (populate coordinates precision)
           (fst (shuffle (map fst (populate coordinates precision)) (seed_gen seed)))
           (replicate (length coordinates) True)"
    unfolding Suc
    by (rule trial_pass_twice) (simp_all add: perm)
  finally show ?case
    by (simp only: trial_loop_Suc [of shuffle coordinates thin_dist all_trials distance_metric R
          "populate coordinates precision" "Suc k"])
qed

lemma thinning_no_trial:
  "trials \<le> 0 \<Longrightarrow>
   rounding_hashing_thinning seed_gen shuffle coordinates thin_dist trials all_trials
     distance_metric R seed =
   Inr (if all_trials then [] else [replicate (length coordinates) True])"
  by (simp add: thinning_result initial_state_def)

subsection \<open>Metric strings other than "haversine"\<close>

lemma distance_fallback:
  "distance_metric \<noteq> ''haversine'' \<Longrightarrow>
   distance distance_metric R p1 p2 = euclideanDistance (fst p1) (snd p1) (fst p2) (snd p2)"
  by (simp add: distance_def)

lemma compare_points_fallback:
  assumes "distance_metric \<noteq> ''haversine''"
  shows "compare_points coordinates thin_dist distance_metric R =
         compare_points coordinates thin_dist ''euclidean'' R'"
  using assms by (intro ext) (simp add: compare_points_def distance_def)

lemma scan_cell_fallback:
  assumes "distance_metric \<noteq> ''haversine''"
  shows "scan_cell coordinates thin_dist distance_metric R =
         scan_cell coordinates thin_dist ''euclidean'' R'"
  unfolding scan_cell_def compare_points_fallback [OF assms, where R' = R'] ..

lemma thin_around_fallback:
  assumes "distance_metric \<noteq> ''haversine''"
  shows "thin_around coordinates thin_dist distance_metric R =
         thin_around coordinates thin_dist ''euclidean'' R'"
  unfolding thin_around_def scan_cell_fallback [OF assms, where R' = R'] ..

lemma trial_pass_fallback:
  assumes "distance_metric \<noteq> ''haversine''"
  shows "trial_pass coordinates thin_dist distance_metric R =
         trial_pass coordinates thin_dist ''euclidean'' R'"
  unfolding trial_pass_def thin_cell_def thin_around_fallback [OF assms, where R' = R'] ..

lemma run_pass_fallback:
  assumes "distance_metric \<noteq> ''haversine''"
  shows "run_pass shuffle coordinates thin_dist distance_metric R =
         run_pass shuffle coordinates thin_dist ''euclidean'' R'"
  unfolding run_pass_def trial_pass_fallback [OF assms, where R' = R'] ..

lemma run_trial_fallback:
  assumes "distance_metric \<noteq> ''haversine''"
  shows "run_trial shuffle coordinates thin_dist all_trials distance_metric R =
         run_trial shuffle coordinates thin_dist all_trials ''euclidean'' R'"
  unfolding run_trial_def improves_def run_pass_fallback [OF assms, where R' = R'] ..

lemma trial_loop_fallback:
  assumes "distance_metric \<noteq> ''haversine''"
  shows "trial_loop shuffle coordinates thin_dist all_trials distance_metric R grid k st =
         trial_loop shuffle coordinates thin_dist all_trials ''euclidean'' R' grid k st"
  by (induction k arbitrary: st)
    (simp_all add: run_trial_fallback [OF assms, where R' = R'])

lemma thinning_fallback:
  assumes "distance_metric \<noteq> ''haversine''"
  shows "rounding_hashing_thinning seed_gen shuffle coordinates thin_dist trials all_trials
           distance_metric R seed =
         rounding_hashing_thinning seed_gen shuffle coordinates thin_dist trials all_trials
           ''euclidean'' R' seed"
  unfolding rounding_hashing_thinning_def trial_loop_fallback [OF assms, where R' = R'] ..

subsection \<open>Sharing the vector cannot be observed\<close>

text \<open>With a shuffle that returns the keys it is given, the operation returns what the
  loop on copies returns: after the first trial the shared vector is a fixed point of
  every later pass, so it is the best mask and every recorded trial mask at once.\<close>

lemma trial_loop_cloned_Suc:
  "trial_loop_cloned shuffle coordinates thin_dist all_trials distance_metric R grid (Suc k) st =
     run_trial_cloned shuffle coordinates thin_dist all_trials distance_metric R grid
       (trial_loop_cloned shuffle coordinates thin_dist all_trials distance_metric R grid k st)"
  by (induction k arbitrary: st) simp_all

lemma map_const_handles:
  "set hs \<subseteq> {0 :: nat} \<Longrightarrow> map (f(0 := v)) hs = replicate (length hs) v"
  by (induction hs) auto

lemma in_step_run_trial:
  assumes step: "in_step st c"
    and same: "trial_masks c \<noteq> [] \<longrightarrow>
                trial_pass coordinates thin_dist distance_metric R grid
                  (fst (shuffle (map fst grid) (gen st))) (vectors st 0) = vectors st 0"
    and better: "\<not> sum_true (trial_pass coordinates thin_dist distance_metric R grid
                  (fst (shuffle (map fst grid) (gen st))) (vectors st 0)) > best_count c \<longrightarrow>
                trial_pass coordinates thin_dist distance_metric R grid
                  (fst (shuffle (map fst grid) (gen st))) (vectors st 0) = vectors st 0"
  shows "in_step (run_trial shuffle coordinates thin_dist all_trials distance_metric R grid st)
           (run_trial_cloned shuffle coordinates thin_dist all_trials distance_metric R grid c)"
proof -
  let ?t = "trial_pass coordinates thin_dist distance_metric R grid
              (fst (shuffle (map fst grid) (gen st))) (vectors st 0)"
  have kp: "keep_points st = 0" and gb: "global_best c = vectors st 0"
    and tm: "trial_masks c = map (vectors st) (all_keep_points st)"
    and hs: "set (all_keep_points st) \<subseteq> {0}" and g: "cloned_gen c = gen st"
    using step by (simp_all add: in_step_def)
  have v: "vectors (run_trial shuffle coordinates thin_dist all_trials distance_metric R grid st)
             = (vectors st)(0 := ?t)"
    by (simp add: vectors_run_trial fst_run_pass kp)
  have best: "global_best (run_trial_cloned shuffle coordinates thin_dist all_trials
                 distance_metric R grid c) = ?t"
    using better by (auto simp: run_trial_cloned_def Let_def gb g split: prod.split)
  have old: "map (vectors st) (all_keep_points st) = replicate (length (all_keep_points st)) ?t"
  proof (cases "all_keep_points st")
    case Nil
    then show ?thesis by simp
  next
    case (Cons h hs')
    then have "trial_masks c \<noteq> []" using tm by simp
    then have "?t = vectors st 0" using same by simp
    moreover have "map (vectors st) (all_keep_points st)
                     = replicate (length (all_keep_points st)) (vectors st 0)"
      using hs map_const_handles [of "all_keep_points st" "vectors st" "vectors st 0"]
      by simp
    ultimately show ?thesis by simp
  qed
  have masks: "trial_masks (run_trial_cloned shuffle coordinates thin_dist all_trials
                 distance_metric R grid c) =
               map (vectors (run_trial shuffle coordinates thin_dist all_trials distance_metric R
                      grid st))
                 (all_keep_points (run_trial shuffle coordinates thin_dist all_trials
                      distance_metric R grid st))"
    using hs old
    by (simp add: v all_keep_points_run_trial kp run_trial_cloned_def Let_def gb g tm
        map_const_handles replicate_append_same split: prod.split)
  have gens: "cloned_gen (run_trial_cloned shuffle coordinates thin_dist all_trials
                 distance_metric R grid c) =
              gen (run_trial shuffle coordinates thin_dist all_trials distance_metric R grid st)"
    by (simp add: gen_run_trial snd_run_pass run_trial_cloned_def Let_def g split: prod.split)
  show ?thesis
    unfolding in_step_def
    using best masks gens hs
    by (simp add: v kp all_keep_points_run_trial)
qed

lemma in_step_loop:
  assumes perm: "\<And>grid_cells g. set (fst (shuffle grid_cells g)) = set grid_cells"
  shows "in_step
           (trial_loop shuffle coordinates thin_dist all_trials distance_metric R
              (populate coordinates precision) k
              (initial_state seed_gen (length coordinates) seed))
           (trial_loop_cloned shuffle coordinates thin_dist all_trials distance_metric R
              (populate coordinates precision) k
              \<lparr>global_best = replicate (length coordinates) True, best_count = 0,
               trial_masks = [], cloned_gen = seed_gen seed\<rparr>)"
proof (induction k)
  case 0
  show ?case by (simp add: in_step_def initial_state_def)
next
  case (Suc k)
  let ?G = "populate coordinates precision"
  let ?s = "trial_loop shuffle coordinates thin_dist all_trials distance_metric R ?G k
              (initial_state seed_gen (length coordinates) seed)"
  let ?c = "trial_loop_cloned shuffle coordinates thin_dist all_trials distance_metric R ?G k
              \<lparr>global_best = replicate (length coordinates) True, best_count = 0,
               trial_masks = [], cloned_gen = seed_gen seed\<rparr>"
  let ?t = "trial_pass coordinates thin_dist distance_metric R ?G
              (fst (shuffle (map fst ?G) (gen ?s))) (vectors ?s 0)"
  have "in_step (run_trial shuffle coordinates thin_dist all_trials distance_metric R ?G ?s)
          (run_trial_cloned shuffle coordinates thin_dist all_trials distance_metric R ?G ?c)"
  proof (cases k)
    case 0
    have v: "vectors ?s 0 = replicate (length coordinates) True"
      using 0 by (simp add: initial_state_def)
    have bc: "best_count ?c = 0" and c0: "trial_masks ?c = []"
      using 0 by simp_all
    have "?t = vectors ?s 0" if worse: "\<not> sum_true ?t > best_count ?c"
    proof (cases "coordinates = []")
      case True
      have e: "length (vectors ?s 0) = 0" unfolding v using True by simp
      have "length ?t = length (vectors ?s 0)" by simp
      then have "length ?t = 0" using e by simp
      then have "?t = []" by (simp only: length_0_conv)
      moreover have "vectors ?s 0 = []" using e by (simp only: length_0_conv)
      ultimately show ?thesis by (simp only:)
    next
      case False
      then have "0 < sum_true ?t"
        unfolding v by (intro trial_pass_retains_one) (simp_all add: sum_true_replicate)
      then show ?thesis using worse bc by simp
    qed
    then show ?thesis
      using c0 Suc.IH by (intro in_step_run_trial) simp_all
  next
    case (Suc j)
    have first: "vectors ?s 0 =
         trial_pass coordinates thin_dist distance_metric R ?G
           (fst (shuffle (map fst ?G) (seed_gen seed))) (replicate (length coordinates) True)"
      unfolding Suc by (rule vector_after_first) (rule perm)
    have "?t = vectors ?s 0"
      unfolding first by (rule trial_pass_twice) (simp_all add: perm)
    then show ?thesis
      using Suc.IH by (intro in_step_run_trial) simp_all
  qed
  then show ?case
    by (simp only: trial_loop_Suc [of shuffle coordinates thin_dist all_trials distance_metric R
          ?G k] trial_loop_cloned_Suc [of shuffle coordinates thin_dist all_trials
          distance_metric R ?G k])
qed

lemma sharing_unobservable:
  assumes "\<And>grid_cells g. set (fst (shuffle grid_cells g)) = set grid_cells"
  shows "rounding_hashing_thinning seed_gen shuffle coordinates thin_dist trials all_trials
           distance_metric R seed =
         Inr (thinning_cloned seed_gen shuffle coordinates thin_dist trials all_trials
                distance_metric R seed)"
proof -
  let ?s = "trial_loop shuffle coordinates thin_dist all_trials distance_metric R
              (populate coordinates (precision_of thin_dist)) (nat trials)
              (initial_state seed_gen (length coordinates) seed)"
  let ?c = "trial_loop_cloned shuffle coordinates thin_dist all_trials distance_metric R
              (populate coordinates (precision_of thin_dist)) (nat trials)
              \<lparr>global_best = replicate (length coordinates) True, best_count = 0,
               trial_masks = [], cloned_gen = seed_gen seed\<rparr>"
  have "in_step ?s ?c" by (rule in_step_loop) (rule assms)
  then have k: "keep_points ?s = 0" and b: "global_best ?c = vectors ?s 0"
    and m: "trial_masks ?c = map (vectors ?s) (all_keep_points ?s)"
    by (simp_all add: in_step_def)
  show ?thesis
    unfolding rounding_hashing_thinning_def thinning_cloned_def Let_def k b m
    by simp
qed

subsection \<open>Rounding to binary64\<close>

lemma pow2_powr: "pow2 e = 2 powr (of_int e)"
  by (simp add: pow2_def powr_real_of_int field_simps)

lemma pow2_pos [simp]: "0 < pow2 e"
  by (simp add: pow2_powr)

lemma pow2_nonzero [simp]: "pow2 e \<noteq> 0"
  by (simp add: pow2_powr)

lemma abs_pow2 [simp]: "\<bar>pow2 e\<bar> = pow2 e"
  by (simp add: pow2_powr)

lemma pow2_add: "pow2 (a + b) = pow2 a * pow2 b"
  by (simp add: pow2_powr powr_add)

lemma binary64_exponent_eq:
  assumes "pow2 k \<le> \<bar>x\<bar>" and "\<bar>x\<bar> < pow2 (k + 1)" and "- 1022 \<le> k"
  shows "binary64_exponent x = k"
proof -
  have "0 < \<bar>x\<bar>" using assms(1) pow2_pos [of k] by linarith
  then have "\<lfloor>log 2 \<bar>x\<bar>\<rfloor> = k"
    using assms(1,2) by (simp add: floor_log_eq_powr_iff pow2_powr)
  then show ?thesis using assms(3) by (simp add: binary64_exponent_def)
qed

text \<open>A normal number is rounded to a multiple of the unit in its last place.\<close>

lemma to_double_normal:
  assumes "pow2 k \<le> \<bar>x\<bar>" and "\<bar>x\<bar> < pow2 (k + 1)" and "- 1022 \<le> k"
  shows "to_double x = of_int (round_ties_even (x / pow2 (k - 52))) * pow2 (k - 52)"
proof -
  have "x \<noteq> 0"
  proof
    assume "x = 0"
    then have "pow2 k \<le> 0" using assms(1) by simp
    then show False using pow2_pos [of k] by linarith
  qed
  then show ?thesis
    by (simp add: to_double_def Let_def binary64_exponent_eq [OF assms])
qed

lemma round_ties_even_of_int [simp]: "round_ties_even (of_int n) = n"
  by (simp add: round_ties_even_def)

text \<open>A number with a significand of 53 bits is a double.\<close>

lemma to_double_exact:
  assumes x: "x = of_int n * pow2 (k - 52)"
    and n: "2 ^ 52 \<le> \<bar>n\<bar>" "\<bar>n\<bar> < 2 ^ 53" and k: "- 1022 \<le> k"
  shows "to_double x = x"
proof -
  have "pow2 52 = 2 ^ 52" and "pow2 53 = 2 ^ 53" by (simp_all add: pow2_def)
  moreover have "pow2 k = pow2 (52 + (k - 52))" and "pow2 (k + 1) = pow2 (53 + (k - 52))"
    by (simp_all add: algebra_simps)
  ultimately have k52: "pow2 k = 2 ^ 52 * pow2 (k - 52)"
    and k53: "pow2 (k + 1) = 2 ^ 53 * pow2 (k - 52)"
    by (simp_all only: pow2_add)
  have ax: "\<bar>x\<bar> = of_int \<bar>n\<bar> * pow2 (k - 52)"
    by (simp add: x abs_mult)
  have "(2 :: real) ^ 52 \<le> of_int \<bar>n\<bar>"
    using n(1) by (metis of_int_le_iff of_int_numeral of_int_power)
  then have lo: "pow2 k \<le> \<bar>x\<bar>" unfolding k52 ax by simp
  have "of_int \<bar>n\<bar> < (2 :: real) ^ 53"
    using n(2) by (metis of_int_less_iff of_int_numeral of_int_power)
  then have hi: "\<bar>x\<bar> < pow2 (k + 1)" unfolding k53 ax by simp
  have "x / pow2 (k - 52) = of_int n" by (simp add: x)
  then show ?thesis
    unfolding to_double_normal [OF lo hi k] by (simp add: x)
qed

lemma to_double_0: "to_double 0 = 0"
  by (simp add: to_double_def)


lemma to_double_quarter: "to_double (1 / 4) = 1 / 4"
  by (rule to_double_exact [where n = "2 ^ 52" and k = "- 2"]) (simp_all add: pow2_def)

lemma to_double_minus_half: "to_double (- (1 / 2)) = - (1 / 2)"
  by (rule to_double_exact [where n = "- (2 ^ 52)" and k = "- 1"]) (simp_all add: pow2_def)

lemma to_double_minus_three_quarters: "to_double (- (3 / 4)) = - (3 / 4)"
  by (rule to_double_exact [where n = "- (3 * 2 ^ 51)" and k = "- 1"]) (simp_all add: pow2_def)

lemma to_double_five_halves: "to_double (5 / 2) = 5 / 2"
  by (rule to_double_exact [where n = "5 * 2 ^ 50" and k = 1]) (simp_all add: pow2_def)



text \<open>The double of the literal \<^verbatim>\<open>111.32\<close>, and the precisions of the thresholds 1,
  \<open>-1\<close> and \<^verbatim>\<open>111.32\<close>.\<close>

lemma km_per_degree_value: "km_per_degree = 7833448601857556 / 2 ^ 46"
  unfolding km_per_degree_def
  by (subst to_double_normal [where k = 6]) (simp_all add: pow2_def round_ties_even_def)

lemma precision_of_1: "precision_of 1 = 5178411357378939 / 2 ^ 59"
  unfolding precision_of_def double_div_def
  by (subst to_double_normal [where k = "- 7"])
    (simp_all add: km_per_degree_value pow2_def round_ties_even_def)

lemma precision_of_minus_1: "precision_of (- 1) = - (5178411357378939 / 2 ^ 59)"
  unfolding precision_of_def double_div_def
  by (subst to_double_normal [where k = "- 7"])
    (simp_all add: km_per_degree_value pow2_def round_ties_even_def)

lemma precision_of_1_nonzero: "precision_of 1 \<noteq> 0"
  by (simp add: precision_of_1)

lemma precision_of_minus_1_nonzero: "precision_of (- 1) \<noteq> 0"
  by (simp add: precision_of_minus_1)


subsection \<open>Keys\<close>



lemma std_round_0: "std_round 0 = 0"
  by (simp add: std_round_def)

lemma cell_index_0: "precision \<noteq> 0 \<Longrightarrow> cell_index 0 precision = 0"
  by (simp add: cell_index_def double_div_def to_double_0 std_round_0 static_cast_int_def)

lemma int_add_offsets: "int_add 0 (- 1) = - 1" "int_add 0 0 = 0" "int_add 0 1 = 1"
  by (simp_all add: int_add_def)

subsection \<open>Concrete inputs\<close>

lemma populate_twins:
  "precision \<noteq> 0 \<Longrightarrow> populate [(0, 0), (0, 0)] precision = [((0, 0), [0, 1])]"
  by (simp add: populate_def grid_cell_of_def cell_index_0 upt_rec)

lemma neighbor_cell_twins:
  "precision_of thin_dist \<noteq> 0 \<Longrightarrow> p < 2 \<Longrightarrow>
   neighbor_cell [(0, 0), (0, 0)] thin_dist p off = (int_add 0 (snd off), int_add 0 (fst off))"
  by (cases p) (simp_all add: neighbor_cell_def cell_index_0)

lemma euclidean_same: "euclideanDistance x y x y = 0"
  by (simp add: euclideanDistance_def)

lemma pass_twins_euclidean:
  "precision \<noteq> 0 \<Longrightarrow>
   trial_pass [(0, 0), (0, 0)] 1 ''euclidean'' R (populate [(0, 0), (0, 0)] precision)
     [(0, 0)] [True, True] = [True, False]"
  by (simp add: populate_twins trial_pass_def thin_cell_def bucket_def
      thin_around_def offsets_def scan_cell_def neighbor_cell_twins precision_of_1_nonzero
      int_add_offsets compare_points_def distance_def euclidean_same)

lemma haversine_same: "haversineDistance 0 0 0 0 R = 0"
  by (simp add: haversineDistance_def atan2_def)

lemma pass_twins_haversine:
  "precision \<noteq> 0 \<Longrightarrow>
   trial_pass [(0, 0), (0, 0)] 1 ''haversine'' R (populate [(0, 0), (0, 0)] precision)
     [(0, 0)] [True, True] = [True, False]"
  by (simp add: populate_twins trial_pass_def thin_cell_def bucket_def
      thin_around_def offsets_def scan_cell_def neighbor_cell_twins precision_of_1_nonzero
      int_add_offsets compare_points_def distance_def haversine_same)

lemma keys_twins:
  "precision \<noteq> 0 \<Longrightarrow> map fst (populate [(0, 0), (0, 0)] precision) = [(0, 0)]"
  by (simp add: populate_twins)

lemma first_vector_twins:
  "precision \<noteq> 0 \<Longrightarrow>
   vectors (run_trial rotate_shuffle [(0, 0), (0, 0)] thin_dist all_trials distance_metric R
     (populate [(0, 0), (0, 0)] precision) (initial_state counter_gen (Suc (Suc 0)) 0)) 0 =
   trial_pass [(0, 0), (0, 0)] thin_dist distance_metric R (populate [(0, 0), (0, 0)] precision)
     [(0, 0)] [True, True]"
  by (simp add: vectors_run_trial fst_run_pass initial_state_def keys_twins rotate_shuffle_def
      counter_gen_def)

lemma thinning_twins_euclid:
  "rounding_hashing_thinning counter_gen rotate_shuffle [(0, 0), (0, 0)] 1 1 False
     ''euclid'' 6371 0 = Inr [[True, False]]"
proof -
  have "''euclid'' \<noteq> ''haversine''" by simp
  then have "rounding_hashing_thinning counter_gen rotate_shuffle [(0, 0), (0, 0)] 1 1 False
     ''euclid'' 6371 0 =
     rounding_hashing_thinning counter_gen rotate_shuffle [(0, 0), (0, 0)] 1 1 False
     ''euclidean'' 6371 0"
    by (rule thinning_fallback)
  also have "\<dots> = Inr [[True, False]]"
    by (simp add: thinning_result first_vector_twins pass_twins_euclidean
        precision_of_1_nonzero)
  finally show ?thesis .
qed

lemma pass_twins_negative:
  "precision \<noteq> 0 \<Longrightarrow>
   trial_pass [(0, 0), (0, 0)] (- 1) ''euclidean'' R (populate [(0, 0), (0, 0)] precision)
     [(0, 0)] [True, True] = [True, True]"
  by (simp add: populate_twins trial_pass_def thin_cell_def bucket_def
      thin_around_def offsets_def scan_cell_def neighbor_cell_twins
      precision_of_minus_1_nonzero int_add_offsets compare_points_def distance_def
      euclidean_same)

lemma ceiling_minus_one: "\<lceil>- 1 :: real\<rceil> = - 1"
  by (simp add: ceiling_minus)

lemma cell_index_three:
  "cell_index (1 / 4) 1 = 0" "cell_index (- (1 / 2)) 1 = - 1" "cell_index (5 / 2) 1 = 3"
  "cell_index 0 1 = 0" "cell_index (- (3 / 4)) 1 = - 1"
  by (simp_all add: cell_index_def double_div_def to_double_quarter to_double_minus_half
      to_double_five_halves to_double_0 to_double_minus_three_quarters std_round_def
      static_cast_int_def ceiling_minus_one)



lemma cell_of_third: "grid_cell_of 1 (three_points ! 2) = (0, - 1)"
  by (simp add: three_points_def grid_cell_of_def cell_index_three)






lemma rotate_shuffle_set: "set (fst (rotate_shuffle grid_cells g)) = set grid_cells"
  by (simp add: rotate_shuffle_def)

section \<open>The claims\<close>

subsection \<open>A pass never rescues a point\<close>

text \<open>
  Claim C2. For every starting mask, grid and visiting order, one trial pass keeps the
  length of the mask, leaves every point that is not retained in the starting mask not
  retained in its output, and so returns a mask whose retained-count is at most that of
  the starting mask.
\<close>

theorem trial_pass_never_rescues:
  "length (trial_pass coordinates thin_dist distance_metric R grid grid_cells starting_mask)
     = length starting_mask \<and>
   (\<forall>i<length starting_mask. \<not> starting_mask ! i \<longrightarrow>
      \<not> trial_pass coordinates thin_dist distance_metric R grid grid_cells starting_mask ! i) \<and>
   sum_true (trial_pass coordinates thin_dist distance_metric R grid grid_cells starting_mask)
     \<le> sum_true starting_mask"
  using trial_pass_mono [of _ starting_mask coordinates thin_dist distance_metric R grid grid_cells]
  by (auto simp: sum_true_trial_pass)

text \<open>Two points at the same place: started with the second one off, the pass leaves
  it off; started with both on, it retains one of the two.\<close>

theorem trial_pass_never_rescues_witness:
  "\<not> [True, False] ! 1 \<and>
   \<not> trial_pass [(0, 0), (0, 0)] 1 ''euclidean'' 6371
       (populate [(0, 0), (0, 0)] (precision_of 1)) [(0, 0)] [True, False] ! 1 \<and>
   sum_true (trial_pass [(0, 0), (0, 0)] 1 ''euclidean'' 6371
       (populate [(0, 0), (0, 0)] (precision_of 1)) [(0, 0)] [True, True]) = 1 \<and>
   sum_true [True, True] = 2"
proof -
  have "\<not> trial_pass [(0, 0), (0, 0)] 1 ''euclidean'' 6371
       (populate [(0, 0), (0, 0)] (precision_of 1)) [(0, 0)] [True, False] ! 1"
    using trial_pass_never_rescues [of "[(0, 0), (0, 0)]" 1 "''euclidean''" 6371
        "populate [(0, 0), (0, 0)] (precision_of 1)" "[(0, 0)]" "[True, False]"]
    by simp
  then show ?thesis
    by (simp add: pass_twins_euclidean precision_of_1_nonzero sum_true_def)
qed

subsection \<open>Every returned mask has one entry per point\<close>

text \<open>
  Claim C9. For every input of \<open>n \<ge> 0\<close> points the operation returns a list of masks,
  one mask when \<open>all_trials\<close> is false and one per trial when it is true, and every
  mask of the list has exactly \<open>n\<close> entries.
\<close>

theorem mask_length_invariance:
  "\<exists>masks. rounding_hashing_thinning seed_gen shuffle coordinates thin_dist trials all_trials
       distance_metric R seed = Inr masks \<and>
     length masks = (if all_trials then nat trials else 1) \<and>
     (\<forall>m\<in>set masks. length m = length coordinates)"
  by (simp add: thinning_result length_final_vector)

theorem mask_length_invariance_witness:
  "\<exists>masks. rounding_hashing_thinning counter_gen rotate_shuffle [(0, 0), (0, 0)] 1 3 True
       ''euclidean'' 6371 7 = Inr masks \<and>
     length masks = 3 \<and> (\<forall>m\<in>set masks. length m = 2)"
proof -
  from mask_length_invariance [of counter_gen rotate_shuffle "[(0, 0), (0, 0)]" 1 3 True
      "''euclidean''" 6371 7]
  obtain masks where
    a: "rounding_hashing_thinning counter_gen rotate_shuffle [(0, 0), (0, 0)] 1 3 True
          ''euclidean'' 6371 7 = Inr masks"
    and b: "length masks = (if True then nat 3 else 1)"
    and c: "\<forall>m\<in>set masks. length m = length [(0 :: real, 0 :: real), (0, 0)]"
    by blast
  have "length masks = 3" using b by simp
  moreover have "\<forall>m\<in>set masks. length m = 2" using c by simp
  ultimately show ?thesis using a by blast
qed

subsection \<open>The empty input\<close>

text \<open>
  Claim C8. For an input of no points and a positive trial count the operation raises no
  error: it returns the list holding the empty mask, or, when \<open>all_trials\<close> is set, one
  empty mask per trial.
\<close>

theorem empty_input:
  "0 < trials \<Longrightarrow>
   rounding_hashing_thinning seed_gen shuffle [] thin_dist trials all_trials distance_metric R seed
     = Inr (if all_trials then replicate (nat trials) [] else [[]])"
  by (simp add: thinning_result final_vector_empty)

theorem empty_input_witness:
  "(0::int) < 2 \<and>
   rounding_hashing_thinning counter_gen rotate_shuffle [] 1 2 True ''haversine'' 6371 0
     = Inr [[], []] \<and>
   rounding_hashing_thinning counter_gen rotate_shuffle [] 1 2 False ''haversine'' 6371 0
     = Inr [[]]"
  using empty_input [of 2 counter_gen rotate_shuffle 1 True "''haversine''" 6371 0]
    empty_input [of 2 counter_gen rotate_shuffle 1 False "''haversine''" 6371 0]
  by (simp add: numeral_2_eq_2)

subsection \<open>The retained set is never emptied\<close>

text \<open>
  Claim C10. For every input of \<open>n \<ge> 1\<close> points: the innermost step leaves the
  suppressing point \<open>p1\<close> retained, and a visit of \<open>p1\<close> changes the mask only when \<open>p1\<close>
  is retained, so the working mask always has a retained point once it has one; a trial
  pass from a mask of \<open>n\<close> entries with a retained point returns a mask with a retained
  point; and every mask the operation returns has retained-count at least 1.
\<close>

theorem retained_set_never_empty:
  assumes "coordinates \<noteq> []"
  shows "(\<forall>p1 p2 m. p1 < length m \<longrightarrow> m ! p1 \<longrightarrow>
            compare_points coordinates thin_dist distance_metric R p1 p2 m ! p1) \<and>
         (\<forall>grid p1 m. thin_around coordinates thin_dist distance_metric R grid p1 m \<noteq> m
            \<longrightarrow> m ! p1) \<and>
         (\<forall>grid_cells m. length m = length coordinates \<longrightarrow> 1 \<le> sum_true m \<longrightarrow>
            1 \<le> sum_true (trial_pass coordinates thin_dist distance_metric R
                   (populate coordinates (precision_of thin_dist)) grid_cells m)) \<and>
         (\<exists>masks. rounding_hashing_thinning seed_gen shuffle coordinates thin_dist trials
                     all_trials distance_metric R seed = Inr masks \<and>
                   (\<forall>m\<in>set masks. 1 \<le> sum_true m))"
proof (intro conjI allI impI)
  fix p1 p2 :: nat and m :: mask
  assume "p1 < length m" and "m ! p1"
  then show "compare_points coordinates thin_dist distance_metric R p1 p2 m ! p1"
    by (rule compare_points_keeps_self)
next
  fix grid :: grid and p1 :: nat and m :: mask
  assume "thin_around coordinates thin_dist distance_metric R grid p1 m \<noteq> m"
  then show "m ! p1" by (rule thin_around_changes)
next
  fix grid_cells :: "cell list" and m :: mask
  assume "length m = length coordinates" and "1 \<le> sum_true m"
  then show "1 \<le> sum_true (trial_pass coordinates thin_dist distance_metric R
                   (populate coordinates (precision_of thin_dist)) grid_cells m)"
    using trial_pass_retains_one [of m coordinates thin_dist distance_metric R
        "precision_of thin_dist" grid_cells]
    by simp
next
  have "\<And>a. 0 < sum_true (vectors (trial_loop shuffle coordinates thin_dist a
            distance_metric R (populate coordinates (precision_of thin_dist)) (nat trials)
            (initial_state seed_gen (length coordinates) seed)) 0)"
    by (rule final_vector_retains_one [OF assms])
  then have "\<And>a. 1 \<le> sum_true (vectors (trial_loop shuffle coordinates thin_dist a
            distance_metric R (populate coordinates (precision_of thin_dist)) (nat trials)
            (initial_state seed_gen (length coordinates) seed)) 0)"
    by (simp add: int_one_le_iff_zero_less)
  then show "\<exists>masks. rounding_hashing_thinning seed_gen shuffle coordinates thin_dist trials
                     all_trials distance_metric R seed = Inr masks \<and>
                   (\<forall>m\<in>set masks. 1 \<le> sum_true m)"
    by (simp add: thinning_result)
qed

text \<open>Two points at the same place, the first one already off: the pass keeps the
  second; and the three masks of three trials each retain a point.\<close>

theorem retained_set_never_empty_witness:
  "1 \<le> sum_true (trial_pass [(0, 0), (0, 0)] 1 ''euclidean'' 6371
          (populate [(0, 0), (0, 0)] (precision_of 1)) [(0, 0)] [False, True]) \<and>
   (\<exists>masks. rounding_hashing_thinning counter_gen rotate_shuffle [(0, 0), (0, 0)] 1 3 True
        ''euclidean'' 6371 0 = Inr masks \<and> (\<forall>m\<in>set masks. 1 \<le> sum_true m))"
proof -
  have ne: "[(0 :: real, 0 :: real), (0, 0)] \<noteq> []" by simp
  note w = retained_set_never_empty [OF ne, of 1 "''euclidean''" 6371 counter_gen rotate_shuffle
      3 True 0]
  have "length [False, True] = length [(0 :: real, 0 :: real), (0, 0)]" by simp
  moreover have "1 \<le> sum_true [False, True]" by (simp add: sum_true_def)
  ultimately have "1 \<le> sum_true (trial_pass [(0, 0), (0, 0)] 1 ''euclidean'' 6371
          (populate [(0, 0), (0, 0)] (precision_of 1)) [(0, 0)] [False, True])"
    using w by blast
  then show ?thesis using w by blast
qed

subsection \<open>Points further apart than the threshold\<close>



subsection \<open>The first trial decides the result\<close>

text \<open>
  Claim C1. For every input of \<open>n \<ge> 1\<close> points and \<open>trials \<ge> 1\<close>, with a shuffle that
  returns the keys it is given in some order, the single mask returned when \<open>all_trials\<close>
  is false has the retained-count of the first trial run from the all-retained mask, and
  that count is not zero; after the first trial \<open>best_size\<close> is that count, and in no
  later trial does the test \<open>current_size > best_size\<close> succeed, so no later trial
  replaces \<open>keep_points\<close>.
\<close>

theorem first_trial_dominance:
  assumes "coordinates \<noteq> []" and "1 \<le> trials"
    and "\<And>grid_cells g. set (fst (shuffle grid_cells g)) = set grid_cells"
  shows "\<exists>m. rounding_hashing_thinning seed_gen shuffle coordinates thin_dist trials False
                distance_metric R seed = Inr [m] \<and>
           sum_true m =
             sum_true (trial_pass coordinates thin_dist distance_metric R
               (populate coordinates (precision_of thin_dist))
               (fst (shuffle (map fst (populate coordinates (precision_of thin_dist)))
                       (seed_gen seed)))
               (replicate (length coordinates) True)) \<and>
           0 < sum_true m \<and>
           (\<forall>k. 1 \<le> k \<longrightarrow> k < nat trials \<longrightarrow>
              best_size (trial_loop shuffle coordinates thin_dist False distance_metric R
                  (populate coordinates (precision_of thin_dist)) k
                  (initial_state seed_gen (length coordinates) seed)) = sum_true m \<and>
              \<not> improves shuffle coordinates thin_dist distance_metric R
                  (populate coordinates (precision_of thin_dist))
                  (trial_loop shuffle coordinates thin_dist False distance_metric R
                     (populate coordinates (precision_of thin_dist)) k
                     (initial_state seed_gen (length coordinates) seed)))"
proof -
  let ?G = "populate coordinates (precision_of thin_dist)"
  let ?st0 = "initial_state seed_gen (length coordinates) seed"
  let ?M1 = "trial_pass coordinates thin_dist distance_metric R ?G
               (fst (shuffle (map fst ?G) (seed_gen seed))) (replicate (length coordinates) True)"
  let ?loop = "trial_loop shuffle coordinates thin_dist False distance_metric R ?G"
  from assms(2) obtain j where j: "nat trials = Suc j" by (cases "nat trials") simp_all
  have final: "vectors (?loop (nat trials) ?st0) 0 = ?M1"
    unfolding j by (rule vector_after_first) (rule assms(3))
  have pos: "0 < sum_true ?M1"
    using assms(1) by (intro trial_pass_retains_one) (simp_all add: sum_true_replicate)
  have first: "best_size (run_trial shuffle coordinates thin_dist False distance_metric R ?G ?st0)
                 = sum_true ?M1"
    using pos by (simp add: best_size_run_trial fst_run_pass initial_state_def)
  have later: "best_size (?loop k ?st0) = sum_true ?M1 \<and>
               \<not> improves shuffle coordinates thin_dist distance_metric R ?G (?loop k ?st0)"
    if "1 \<le> k" for k
  proof -
    from that obtain i where i: "k = Suc i" by (cases k) simp_all
    have "best_size (?loop k ?st0) = sum_true ?M1"
      unfolding i by (simp only: best_size_after_first first)
    then show ?thesis using that by (simp add: later_trials_do_not_improve)
  qed
  show ?thesis
    using final pos later by (simp add: thinning_result)
qed

text \<open>Two points at the same place and three trials: one point is retained, and the
  third trial does not improve.\<close>

theorem first_trial_dominance_witness:
  "(\<exists>m. rounding_hashing_thinning counter_gen rotate_shuffle [(0, 0), (0, 0)] 1 3 False
           ''euclidean'' 6371 0 = Inr [m] \<and> sum_true m = 1) \<and>
   \<not> improves rotate_shuffle [(0, 0), (0, 0)] 1 ''euclidean'' 6371
       (populate [(0, 0), (0, 0)] (precision_of 1))
       (trial_loop rotate_shuffle [(0, 0), (0, 0)] 1 False ''euclidean'' 6371
          (populate [(0, 0), (0, 0)] (precision_of 1)) 2
          (initial_state counter_gen (length [(0 :: real, 0 :: real), (0, 0)]) 0))"
proof -
  have ne: "[(0 :: real, 0 :: real), (0, 0)] \<noteq> []" by simp
  have tr: "(1 :: int) \<le> 3" by simp
  have first: "sum_true (trial_pass [(0, 0), (0, 0)] 1 ''euclidean'' 6371
               (populate [(0, 0), (0, 0)] (precision_of 1))
               (fst (rotate_shuffle (map fst (populate [(0, 0), (0, 0)] (precision_of 1)))
                       (counter_gen 0)))
               (replicate (length [(0 :: real, 0 :: real), (0, 0)]) True)) = 1"
    by (simp add: keys_twins rotate_shuffle_def counter_gen_def pass_twins_euclidean
        precision_of_1_nonzero sum_true_def)
  from first_trial_dominance [where shuffle = rotate_shuffle and seed_gen = counter_gen
      and thin_dist = 1 and distance_metric = "''euclidean''" and R = 6371 and seed = 0,
      OF ne tr rotate_shuffle_set]
  obtain m where
    a: "rounding_hashing_thinning counter_gen rotate_shuffle [(0, 0), (0, 0)] 1 3 False
           ''euclidean'' 6371 0 = Inr [m]"
    and b: "sum_true m = sum_true (trial_pass [(0, 0), (0, 0)] 1 ''euclidean'' 6371
               (populate [(0, 0), (0, 0)] (precision_of 1))
               (fst (rotate_shuffle (map fst (populate [(0, 0), (0, 0)] (precision_of 1)))
                       (counter_gen 0)))
               (replicate (length [(0 :: real, 0 :: real), (0, 0)]) True))"
    and c: "\<forall>k. 1 \<le> k \<longrightarrow> k < nat 3 \<longrightarrow>
              best_size (trial_loop rotate_shuffle [(0, 0), (0, 0)] 1 False ''euclidean'' 6371
                  (populate [(0, 0), (0, 0)] (precision_of 1)) k
                  (initial_state counter_gen (length [(0 :: real, 0 :: real), (0, 0)]) 0))
                = sum_true m \<and>
              \<not> improves rotate_shuffle [(0, 0), (0, 0)] 1 ''euclidean'' 6371
                  (populate [(0, 0), (0, 0)] (precision_of 1))
                  (trial_loop rotate_shuffle [(0, 0), (0, 0)] 1 False ''euclidean'' 6371
                     (populate [(0, 0), (0, 0)] (precision_of 1)) k
                     (initial_state counter_gen (length [(0 :: real, 0 :: real), (0, 0)]) 0))"
    by blast
  have "sum_true m = 1" using b first by simp
  moreover have "(1 :: nat) \<le> 2" and "(2 :: nat) < nat 3" by simp_all
  ultimately show ?thesis using a c by blast
qed

subsection \<open>The grid\<close>




subsection \<open>An unknown metric string\<close>

text \<open>
  Claim C3 says that a metric string other than "haversine" fails with
  \<open>InvalidArgument\<close>. It does not: with the string "euclid" the operation returns a mask,
  thinned with the Euclidean distance.
\<close>

theorem unknown_metric_counterexample:
  "''euclid'' \<noteq> ''haversine'' \<and>
   rounding_hashing_thinning counter_gen rotate_shuffle [(0, 0), (0, 0)] 1 1 False
     ''euclid'' 6371 0 = Inr [[True, False]] \<and>
   rounding_hashing_thinning counter_gen rotate_shuffle [(0, 0), (0, 0)] 1 1 False
     ''euclid'' 6371 0 \<noteq> Inl InvalidArgument"
  by (simp add: thinning_twins_euclid)

text \<open>
  Claim C3, amended. For every metric string other than "haversine" the distance used is
  the Euclidean one, and the operation returns masks, the same as for the string
  "euclidean" (with any sphere radius, which that distance ignores).
\<close>

theorem unknown_metric_is_euclidean:
  assumes "distance_metric \<noteq> ''haversine''"
  shows "distance distance_metric R p1 p2 =
           euclideanDistance (fst p1) (snd p1) (fst p2) (snd p2) \<and>
         rounding_hashing_thinning seed_gen shuffle coordinates thin_dist trials all_trials
           distance_metric R seed =
         rounding_hashing_thinning seed_gen shuffle coordinates thin_dist trials all_trials
           ''euclidean'' R' seed \<and>
         (\<exists>masks. rounding_hashing_thinning seed_gen shuffle coordinates thin_dist trials
                     all_trials distance_metric R seed = Inr masks)"
proof (intro conjI)
  show "distance distance_metric R p1 p2 =
          euclideanDistance (fst p1) (snd p1) (fst p2) (snd p2)"
    by (rule distance_fallback [OF assms])
  show "rounding_hashing_thinning seed_gen shuffle coordinates thin_dist trials all_trials
           distance_metric R seed =
         rounding_hashing_thinning seed_gen shuffle coordinates thin_dist trials all_trials
           ''euclidean'' R' seed"
    by (rule thinning_fallback [OF assms])
  show "\<exists>masks. rounding_hashing_thinning seed_gen shuffle coordinates thin_dist trials
                     all_trials distance_metric R seed = Inr masks"
    by (simp add: thinning_result)
qed

theorem unknown_metric_is_euclidean_witness:
  "distance ''euclid'' 6371 (0, 0) (3, 4) = euclideanDistance 0 0 3 4 \<and>
   rounding_hashing_thinning counter_gen rotate_shuffle [(0, 0), (0, 0)] 1 1 False
     ''euclid'' 6371 0 =
   rounding_hashing_thinning counter_gen rotate_shuffle [(0, 0), (0, 0)] 1 1 False
     ''euclidean'' 1 0"
proof -
  have "''euclid'' \<noteq> ''haversine''" by simp
  from unknown_metric_is_euclidean [OF this, of 6371 "(0, 0)" "(3, 4)" counter_gen rotate_shuffle
      "[(0, 0), (0, 0)]" 1 1 False 0 1]
  show ?thesis by simp
qed

subsection \<open>Arguments that are not positive\<close>

text \<open>
  Claim C4 says that a non-positive threshold, trial count or sphere radius is rejected
  with \<open>InvalidArgument\<close> before the grid is built. None is: with 0 trials the operation
  returns the all-retained mask, with threshold \<open>-1\<close> it runs its trial and suppresses
  nothing, and with radius \<open>-1\<close> it runs its trial and thins.
\<close>

theorem validation_counterexample:
  "rounding_hashing_thinning counter_gen rotate_shuffle [(0, 0), (0, 0)] 1 0 False
     ''euclidean'' 6371 0 = Inr [[True, True]] \<and>
   rounding_hashing_thinning counter_gen rotate_shuffle [(0, 0), (0, 0)] (- 1) 1 False
     ''euclidean'' 6371 0 = Inr [[True, True]] \<and>
   rounding_hashing_thinning counter_gen rotate_shuffle [(0, 0), (0, 0)] 1 1 False
     ''haversine'' (- 1) 0 = Inr [[True, False]]"
proof (intro conjI)
  show "rounding_hashing_thinning counter_gen rotate_shuffle [(0, 0), (0, 0)] 1 0 False
     ''euclidean'' 6371 0 = Inr [[True, True]]"
    by (simp add: thinning_no_trial numeral_2_eq_2)
  show "rounding_hashing_thinning counter_gen rotate_shuffle [(0, 0), (0, 0)] (- 1) 1 False
     ''euclidean'' 6371 0 = Inr [[True, True]]"
    by (simp add: thinning_result first_vector_twins pass_twins_negative
        precision_of_minus_1_nonzero)
  show "rounding_hashing_thinning counter_gen rotate_shuffle [(0, 0), (0, 0)] 1 1 False
     ''haversine'' (- 1) 0 = Inr [[True, False]]"
    by (simp add: thinning_result first_vector_twins pass_twins_haversine
        precision_of_1_nonzero)
qed

text \<open>
  Claim C4, amended. For a threshold other than 0 (at 0 the keys are casts of infinities
  or NaN, which C++ leaves undefined) the operation checks none of its arguments: it
  returns its masks of \<open>n\<close> entries whatever the threshold, the trial count and the sphere
  radius are, and with a non-positive trial count it runs no trial and returns the
  all-retained mask, or the empty list when \<open>all_trials\<close> is set.
\<close>

theorem no_argument_validation:
  assumes "thin_dist \<noteq> 0"
  shows "(\<exists>masks. rounding_hashing_thinning seed_gen shuffle coordinates thin_dist trials
                     all_trials distance_metric R seed = Inr masks \<and>
                   length masks = (if all_trials then nat trials else 1) \<and>
                   (\<forall>m\<in>set masks. length m = length coordinates)) \<and>
         (trials \<le> 0 \<longrightarrow>
            rounding_hashing_thinning seed_gen shuffle coordinates thin_dist trials
              all_trials distance_metric R seed =
            Inr (if all_trials then [] else [replicate (length coordinates) True]))"
proof (intro conjI impI)
  show "\<exists>masks. rounding_hashing_thinning seed_gen shuffle coordinates thin_dist trials
                     all_trials distance_metric R seed = Inr masks \<and>
                   length masks = (if all_trials then nat trials else 1) \<and>
                   (\<forall>m\<in>set masks. length m = length coordinates)"
    by (simp add: thinning_result length_final_vector)
next
  assume "trials \<le> 0"
  then show "rounding_hashing_thinning seed_gen shuffle coordinates thin_dist trials
              all_trials distance_metric R seed =
            Inr (if all_trials then [] else [replicate (length coordinates) True])"
    by (rule thinning_no_trial)
qed

theorem no_argument_validation_witness:
  "(- 1 :: real) \<noteq> 0 \<and> (0 :: int) \<le> 0 \<and>
   rounding_hashing_thinning counter_gen rotate_shuffle [(0, 0), (0, 0)] (- 1) 0 False
     ''haversine'' (- 1) 0 = Inr [[True, True]]"
proof -
  have "(- 1 :: real) \<noteq> 0" by simp
  from no_argument_validation [OF this, of counter_gen rotate_shuffle "[(0, 0), (0, 0)]" 0 False
      "''haversine''" "- 1" 0]
  show ?thesis by (simp add: numeral_2_eq_2)
qed

end
